theory Spec2Isabelle
  imports Complex_Main
begin

section \<open>Constraints configuration (the constraints module)\<close>

text \<open>
  The module exports one constant object, \<^verbatim>\<open>CONSTRAINTS\<close>, typed by four interfaces.
  A TypeScript \<^verbatim>\<open>number\<close> that the source writes as an integer literal and uses as a
  count is an \<open>int\<close> here; a ratio written as a decimal literal is a \<open>real\<close> with the
  literal's exact decimal value (the module performs no arithmetic on them). A union of
  string literals is a datatype with one constructor per literal.
\<close>

record VoronoiSeeds =
  forest :: int
  water :: int
  grass :: int

record BuildingDensityRatios =
  sparse :: real
  medium :: real
  dense :: real

record RoadConfig =
  defaultDensity :: real
  seedPointRatio :: real

record BorderRoadConfig =
  roadsPerBorder :: int
  connectToNeighbors :: bool

datatype DensityLevel = DensitySparse | DensityMedium | DensityDense

datatype SizeHint = SizeSmall | SizeMedium | SizeLarge

datatype Clustering = Clustered | Distributed | Random

record Constraints =
  voronoiSeeds :: VoronoiSeeds
  roadDensity :: real
  road :: RoadConfig
  borderRoad :: BorderRoadConfig
  buildingDensity :: BuildingDensityRatios
  defaultBuildingDensity :: DensityLevel
  defaultBuildingSizeHint :: SizeHint
  defaultClustering :: Clustering
  defaultGrassRatio :: real
  minAdjacentRoads :: int
  maxRings :: int

definition CONSTRAINTS :: Constraints where
  "CONSTRAINTS = \<lparr>
     voronoiSeeds = \<lparr> forest = 4, water = 3, grass = 6 \<rparr>,
     roadDensity = 0.1,
     road = \<lparr> defaultDensity = 0.1, seedPointRatio = 0.25 \<rparr>,
     borderRoad = \<lparr> roadsPerBorder = 1, connectToNeighbors = True \<rparr>,
     buildingDensity = \<lparr> sparse = 0.05, medium = 0.1, dense = 0.15 \<rparr>,
     defaultBuildingDensity = DensityMedium,
     defaultBuildingSizeHint = SizeMedium,
     defaultClustering = Random,
     defaultGrassRatio = 0.3,
     minAdjacentRoads = 1,
     maxRings = 50
   \<rparr>"

section \<open>Tiles configuration (tiles.ts)\<close>

text \<open>
  \<^verbatim>\<open>TileConfig\<close> is the interface of one entry; its optional properties are options.
  The inline object type of \<^verbatim>\<open>color\<close> is the record \<open>TileColor\<close>. Babylon's
  \<^verbatim>\<open>Color3\<close> is constructed from three numbers and nothing else of it is used.
\<close>

record TileColor =
  r :: real
  g :: real
  b :: real

record TileConfig =
  type :: string
  modelUrl :: "string option"
  color :: TileColor
  wasmNumber :: int
  displayName :: "string option"

datatype Color3 = Color3 real real real

text \<open>
  A \<^verbatim>\<open>TileType\<close> value as the module builds and reads it: an object whose
  \<^verbatim>\<open>type\<close> property is a string (\<^verbatim>\<open>getAllTileTypes\<close> builds
  \<^verbatim>\<open>{ type: ... }\<close>, \<^verbatim>\<open>getTileColor\<close> reads \<^verbatim>\<open>tileType.type\<close>).
  Types are erased at run time, so the string is any string.
\<close>

datatype TileType = TileType string

fun typeOf :: "TileType \<Rightarrow> string" where
  "typeOf (TileType t) = t"

text \<open>
  Modelled from the spec: the declaration of the \<^verbatim>\<open>TileType\<close> union lives in
  \<^verbatim>\<open>types.ts\<close>, which is not among the sources. The spec gives it as the closed
  variant over grass, building, road, forest and water; \<open>TileTag\<close> is that set of tags
  and \<open>tagName\<close> the string each tag is at run time. The annotation
  \<^verbatim>\<open>Record<TileType['type'], TileConfig>\<close> on \<^verbatim>\<open>TILES\<close> ties the two
  together in the source: it demands one property per member of the union and admits no
  other in the literal.
\<close>

datatype TileTag = Grass | Building | Road | Forest | Water

fun tagName :: "TileTag \<Rightarrow> string" where
  "tagName Grass = ''grass''"
| "tagName Building = ''building''"
| "tagName Road = ''road''"
| "tagName Forest = ''forest''"
| "tagName Water = ''water''"

definition DEFAULT_TILE_MODEL_URL :: string where
  "DEFAULT_TILE_MODEL_URL =
     ''https://raw.githubusercontent.com/EricEisaman/assets/main/items/hex_tile.glb''"

text \<open>
  The object literal \<^verbatim>\<open>TILES\<close>, as the list of its own properties in the order
  the literal writes them (the order \<^verbatim>\<open>Object.keys\<close> reports).
\<close>

definition TILES :: "(string \<times> TileConfig) list" where
  "TILES = [
     (''grass'', \<lparr> type = ''grass'', modelUrl = None,
        color = \<lparr> r = 0.2, g = 0.8, b = 0.2 \<rparr>,
        wasmNumber = 0, displayName = Some ''Grass'' \<rparr>),
     (''building'', \<lparr> type = ''building'', modelUrl = None,
        color = \<lparr> r = 0.96, g = 0.96, b = 0.96 \<rparr>,
        wasmNumber = 1, displayName = Some ''Building'' \<rparr>),
     (''road'', \<lparr> type = ''road'', modelUrl = None,
        color = \<lparr> r = 0.326, g = 0.336, b = 0.326 \<rparr>,
        wasmNumber = 2, displayName = Some ''Road'' \<rparr>),
     (''forest'', \<lparr> type = ''forest'', modelUrl = None,
        color = \<lparr> r = 0.05, g = 0.3, b = 0.05 \<rparr>,
        wasmNumber = 3, displayName = Some ''Forest'' \<rparr>),
     (''water'', \<lparr> type = ''water'', modelUrl = None,
        color = \<lparr> r = 0, g = 0.149, b = 1.0 \<rparr>,
        wasmNumber = 4, displayName = Some ''Water'' \<rparr>)
   ]"

text \<open>
  \<^verbatim>\<open>Object.keys(TILES)\<close>: the own enumerable property names, in insertion order.
\<close>

definition objectKeys :: "(string \<times> 'a) list \<Rightarrow> string list" where
  "objectKeys obj = map fst obj"

text \<open>
  \<^verbatim>\<open>TILES\<close> is a plain object literal, so its prototype is
  \<^verbatim>\<open>Object.prototype\<close> and a property read \<^verbatim>\<open>TILES[k]\<close> that finds no own
  property \<open>k\<close> continues there. These are the property names of
  \<^verbatim>\<open>Object.prototype\<close> (ECMA-262, with the accessors of its Annex B that every
  browser engine has). Each of them reads as a function, or for \<^verbatim>\<open>__proto__\<close> as
  \<^verbatim>\<open>Object.prototype\<close> itself: a truthy value that has none of the properties
  \<^verbatim>\<open>modelUrl\<close>, \<^verbatim>\<open>color\<close>, \<^verbatim>\<open>wasmNumber\<close>.
\<close>

definition objectPrototypeKeys :: "string list" where
  "objectPrototypeKeys = [
     ''constructor'', ''hasOwnProperty'', ''isPrototypeOf'', ''propertyIsEnumerable'',
     ''toLocaleString'', ''toString'', ''valueOf'',
     ''__proto__'', ''__defineGetter__'', ''__defineSetter__'',
     ''__lookupGetter__'', ''__lookupSetter__'']"

text \<open>
  What a property read on \<^verbatim>\<open>TILES\<close> yields: an entry of the table, a value
  inherited from the prototype (kept by its name), or \<^verbatim>\<open>undefined\<close>.
\<close>

datatype TileLookup = Entry TileConfig | Inherited string | Undefined

definition tilesGet :: "string \<Rightarrow> TileLookup" where
  "tilesGet k =
     (case map_of TILES k of
        Some cfg \<Rightarrow> Entry cfg
      | None \<Rightarrow> if k \<in> set objectPrototypeKeys then Inherited k else Undefined)"

datatype JsError = TypeError

text \<open>
  \<^verbatim>\<open>getTileModelUrl\<close>: \<^verbatim>\<open>tileConfig?.modelUrl ?? DEFAULT_TILE_MODEL_URL\<close>. The
  optional chain stops at \<^verbatim>\<open>undefined\<close>; an inherited value has no
  \<^verbatim>\<open>modelUrl\<close>, so the read gives \<^verbatim>\<open>undefined\<close> as well.
\<close>

definition getTileModelUrl :: "string \<Rightarrow> string" where
  "getTileModelUrl tileType =
     (case tilesGet tileType of
        Entry tileConfig \<Rightarrow>
          (case modelUrl tileConfig of Some u \<Rightarrow> u | None \<Rightarrow> DEFAULT_TILE_MODEL_URL)
      | Inherited _ \<Rightarrow> DEFAULT_TILE_MODEL_URL
      | Undefined \<Rightarrow> DEFAULT_TILE_MODEL_URL)"

text \<open>
  \<^verbatim>\<open>getTileColor\<close>: the test \<^verbatim>\<open>if (tileConfig)\<close> passes for every value but
  \<^verbatim>\<open>undefined\<close>. For an inherited value \<^verbatim>\<open>tileConfig.color\<close> is
  \<^verbatim>\<open>undefined\<close> and reading \<^verbatim>\<open>.r\<close> of it throws a TypeError before
  \<^verbatim>\<open>Color3\<close> is constructed.
\<close>

definition getTileColor :: "TileType \<Rightarrow> JsError + Color3" where
  "getTileColor tileType =
     (case tilesGet (typeOf tileType) of
        Entry tileConfig \<Rightarrow>
          Inr (Color3 (r (color tileConfig)) (g (color tileConfig)) (b (color tileConfig)))
      | Inherited _ \<Rightarrow> Inl TypeError
      | Undefined \<Rightarrow> Inr (Color3 1 1 1))"

text \<open>
  \<^verbatim>\<open>getTileWasmNumber\<close>: \<^verbatim>\<open>tileConfig?.wasmNumber ?? -1\<close>. An inherited value
  has no \<^verbatim>\<open>wasmNumber\<close>, so the read gives \<^verbatim>\<open>undefined\<close> and the result is
  \<open>-1\<close>.
\<close>

definition getTileWasmNumber :: "string \<Rightarrow> int" where
  "getTileWasmNumber tileType =
     (case tilesGet tileType of
        Entry tileConfig \<Rightarrow> wasmNumber tileConfig
      | Inherited _ \<Rightarrow> - 1
      | Undefined \<Rightarrow> - 1)"

definition getAllTileTypes :: "TileType list" where
  "getAllTileTypes = map (\<lambda>t. TileType t) (objectKeys TILES)"

definition getTileConfig :: "string \<Rightarrow> TileLookup" where
  "getTileConfig tileType = tilesGet tileType"

section \<open>Building placement on the hex grid\<close>

text \<open>
  The constraints module only holds the numbers of the layout generator; the generator
  itself is not among the sources. This section models the part of it that the density
  ratios and \<^verbatim>\<open>minAdjacentRoads\<close> configure, the building placer, from the
  specification, so that the properties stated for it can be derived from its algorithm.
\<close>

text \<open>
  Modelled from the spec: the hex grid index (its code is missing). A cell is an axial
  coordinate pair; the grid of ring radius \<open>R\<close> holds the cells within axial distance
  \<open>R\<close> of the centre, enumerated in one fixed order; a cell has up to six neighbours,
  fewer at the edge of the grid.
\<close>

type_synonym HexCell = "int \<times> int"

definition hexDistance :: "HexCell \<Rightarrow> HexCell \<Rightarrow> int" where
  "hexDistance a c =
     (\<bar>fst a - fst c\<bar> + \<bar>snd a - snd c\<bar> + \<bar>(fst a + snd a) - (fst c + snd c)\<bar>) div 2"

definition inGrid :: "int \<Rightarrow> HexCell \<Rightarrow> bool" where
  "inGrid R c = (hexDistance (0, 0) c \<le> R)"

definition hexCells :: "int \<Rightarrow> HexCell list" where
  "hexCells R = filter (inGrid R) (List.product [- R..R] [- R..R])"

definition hexDirections :: "HexCell list" where
  "hexDirections = [(1, 0), (1, - 1), (0, - 1), (- 1, 0), (- 1, 1), (0, 1)]"

definition neighbors :: "int \<Rightarrow> HexCell \<Rightarrow> HexCell list" where
  "neighbors R c =
     filter (inGrid R) (map (\<lambda>d. (fst c + fst d, snd c + snd d)) hexDirections)"

text \<open>
  Modelled from the spec: the layers and their merge (the layout assembler's code is
  missing). The region layer gives every cell one of the three seed categories; roads and
  buildings are lists of cells; the merge has the precedence road, then building, then
  region. The placer's input, the finalized region and road layer, is the merge with no
  building.
\<close>

datatype Category = CatForest | CatWater | CatGrass

fun categoryTag :: "Category \<Rightarrow> TileTag" where
  "categoryTag CatForest = Forest"
| "categoryTag CatWater = Water"
| "categoryTag CatGrass = Grass"

type_synonym Layer = "HexCell \<Rightarrow> TileTag"

definition assemble :: "(HexCell \<Rightarrow> Category) \<Rightarrow> HexCell list \<Rightarrow> HexCell list \<Rightarrow> Layer" where
  "assemble region roads buildings c =
     (if c \<in> set roads then Road
      else if c \<in> set buildings then Building
      else categoryTag (region c))"

definition roadLayer :: "(HexCell \<Rightarrow> Category) \<Rightarrow> HexCell list \<Rightarrow> Layer" where
  "roadLayer region roads = assemble region roads []"

text \<open>
  Modelled from the spec: eligibility (the placer's code is missing). A cell qualifies
  iff its current type is grass and it has at least the minimum number of road-tagged
  neighbours.
\<close>

definition roadNeighbors :: "int \<Rightarrow> Layer \<Rightarrow> HexCell \<Rightarrow> int" where
  "roadNeighbors R layer c = int (length (filter (\<lambda>n. layer n = Road) (neighbors R c)))"

definition eligible :: "int \<Rightarrow> int \<Rightarrow> Layer \<Rightarrow> HexCell \<Rightarrow> bool" where
  "eligible R minAdj layer c = (layer c = Grass \<and> minAdj \<le> roadNeighbors R layer c)"

text \<open>
  Modelled from the spec: the inputs of the placer (its code is missing): density ratio,
  clustering mode, size hint, minimum adjacent roads. The spec gives the size hint no
  effect on placement, and leaves the radius of a cluster's neighbourhood open
  (\<open>clusterRadius\<close>). The random source is an explicit stream of draws. The density
  ratio of a level is the entry of \<^verbatim>\<open>CONSTRAINTS.buildingDensity\<close> of that name.
\<close>

record PlacerInput =
  density :: real
  clustering :: Clustering
  sizeHint :: SizeHint
  minAdjacent :: int
  clusterRadius :: int

type_synonym RandomSource = "nat \<Rightarrow> nat"

definition densityRatio :: "DensityLevel \<Rightarrow> real" where
  "densityRatio level =
     (case level of
        DensitySparse \<Rightarrow> sparse (buildingDensity CONSTRAINTS)
      | DensityMedium \<Rightarrow> medium (buildingDensity CONSTRAINTS)
      | DensityDense \<Rightarrow> dense (buildingDensity CONSTRAINTS))"

text \<open>
  Modelled from the spec: the three clustering policies (the placer's code is missing),
  each as the choice of the next cell among the eligible cells not yet picked.
  \<^item> random: a uniform draw from the remaining cells (a sample without replacement).
  \<^item> distributed: the remaining cell whose least distance to the buildings picked so
    far is greatest, the first such in grid order; the first building is a draw.
  \<^item> clustered: while some remaining cell lies within the cluster radius of the anchor,
    the first such; otherwise a draw, which becomes the new anchor.
\<close>

fun minDistTo :: "HexCell \<Rightarrow> HexCell list \<Rightarrow> int" where
  "minDistTo c [] = 0"
| "minDistTo c [p] = hexDistance c p"
| "minDistTo c (p # ps) = min (hexDistance c p) (minDistTo c ps)"

fun bestIndex :: "('a \<Rightarrow> int) \<Rightarrow> 'a list \<Rightarrow> nat" where
  "bestIndex f [] = 0"
| "bestIndex f [x] = 0"
| "bestIndex f (x # xs) =
     (let j = bestIndex f xs in if f x \<ge> f (xs ! j) then 0 else Suc j)"

fun indexWithin :: "int \<Rightarrow> HexCell \<Rightarrow> HexCell list \<Rightarrow> nat option" where
  "indexWithin d a [] = None"
| "indexWithin d a (c # cs) =
     (if hexDistance a c \<le> d then Some 0 else map_option Suc (indexWithin d a cs))"

definition chooseIndex ::
  "Clustering \<Rightarrow> RandomSource \<Rightarrow> int \<Rightarrow> nat \<Rightarrow> HexCell option \<Rightarrow> HexCell list \<Rightarrow> HexCell list
     \<Rightarrow> nat \<times> HexCell option" where
  "chooseIndex mode rnd radius step anchor picked remaining =
     (let fresh = rnd step mod length remaining in
      case mode of
        Random \<Rightarrow> (fresh, anchor)
      | Distributed \<Rightarrow>
          (if picked = [] then (fresh, anchor)
           else (bestIndex (\<lambda>c. minDistTo c picked) remaining, anchor))
      | Clustered \<Rightarrow>
          (case anchor of
             None \<Rightarrow> (fresh, Some (remaining ! fresh))
           | Some a \<Rightarrow>
               (case indexWithin radius a remaining of
                  Some i \<Rightarrow> (i, anchor)
                | None \<Rightarrow> (fresh, Some (remaining ! fresh)))))"

text \<open>
  The selection loop: \<open>k\<close> picks, each removing the chosen cell from the remaining
  ones; it stops early when no cell remains.
\<close>

fun selectCells ::
  "Clustering \<Rightarrow> RandomSource \<Rightarrow> int \<Rightarrow> nat \<Rightarrow> nat \<Rightarrow> HexCell option \<Rightarrow> HexCell list \<Rightarrow> HexCell list
     \<Rightarrow> HexCell list" where
  "selectCells mode rnd radius 0 step anchor picked remaining = picked"
| "selectCells mode rnd radius (Suc k) step anchor picked remaining =
     (if remaining = [] then picked
      else
        (let (i, anchor') = chooseIndex mode rnd radius step anchor picked remaining;
             c = remaining ! i
         in selectCells mode rnd radius k (Suc step) anchor' (picked @ [c])
              (take i remaining @ drop (Suc i) remaining)))"

text \<open>
  Modelled from the spec: the building placer (its code is missing). The selection count
  is density times total cells, rounded down, capped at the eligible count. The result
  holds the cells tagged building, the count the density asked for, and the shortfall; the
  placer has no failure value. The emitted grid is the merge of the layers with the placed
  buildings.
\<close>

record Placement =
  placed :: "HexCell list"
  requested :: nat
  shortfall :: nat

definition eligibleCells ::
  "int \<Rightarrow> PlacerInput \<Rightarrow> (HexCell \<Rightarrow> Category) \<Rightarrow> HexCell list \<Rightarrow> HexCell list" where
  "eligibleCells R inp region roads =
     filter (eligible R (minAdjacent inp) (roadLayer region roads)) (hexCells R)"

definition placeBuildings ::
  "int \<Rightarrow> PlacerInput \<Rightarrow> RandomSource \<Rightarrow> (HexCell \<Rightarrow> Category) \<Rightarrow> HexCell list \<Rightarrow> Placement" where
  "placeBuildings R inp rnd region roads =
     (let candidates = eligibleCells R inp region roads;
          wanted = nat \<lfloor>density inp * real (length (hexCells R))\<rfloor>;
          n = min wanted (length candidates);
          chosen = selectCells (clustering inp) rnd (clusterRadius inp) n 0 None [] candidates
      in \<lparr> placed = chosen, requested = wanted, shortfall = wanted - length chosen \<rparr>)"

definition layoutGrid ::
  "int \<Rightarrow> PlacerInput \<Rightarrow> RandomSource \<Rightarrow> (HexCell \<Rightarrow> Category) \<Rightarrow> HexCell list \<Rightarrow> Layer" where
  "layoutGrid R inp rnd region roads =
     assemble region roads (placed (placeBuildings R inp rnd region roads))"

definition buildingCount :: "int \<Rightarrow> Layer \<Rightarrow> nat" where
  "buildingCount R grid = length (filter (\<lambda>c. grid c = Building) (hexCells R))"

text \<open>
  A concrete chunk for evaluation: radius 3, forest to the west, water to the north-east,
  grass elsewhere, one road along the row \<open>(0, 0) \<dots> (3, 0)\<close>, and the defaults of
  \<^verbatim>\<open>CONSTRAINTS\<close> for everything but the density.
\<close>

definition exampleRegion :: "HexCell \<Rightarrow> Category" where
  "exampleRegion c = (if fst c < 0 then CatForest else if snd c < 0 then CatWater else CatGrass)"

definition exampleRoads :: "HexCell list" where
  "exampleRoads = [(0, 0), (1, 0), (2, 0), (3, 0)]"

definition exampleInput :: "real \<Rightarrow> PlacerInput" where
  "exampleInput d = \<lparr> density = d, clustering = defaultClustering CONSTRAINTS,
     sizeHint = defaultBuildingSizeHint CONSTRAINTS,
     minAdjacent = minAdjacentRoads CONSTRAINTS, clusterRadius = 2 \<rparr>"

definition exampleRandom :: RandomSource where
  "exampleRandom i = 7 * i + 3"

section \<open>Properties of the constraints\<close>

lemma CONSTRAINTS_defaults:
  "roadsPerBorder (borderRoad CONSTRAINTS) = 1"
  "connectToNeighbors (borderRoad CONSTRAINTS) = True"
  "minAdjacentRoads CONSTRAINTS = 1"
  "maxRings CONSTRAINTS = 50"
  "defaultBuildingDensity CONSTRAINTS = DensityMedium"
  "sparse (buildingDensity CONSTRAINTS) = 0.05"
  "medium (buildingDensity CONSTRAINTS) = 0.1"
  "dense (buildingDensity CONSTRAINTS) = 0.15"
  by (simp_all add: CONSTRAINTS_def)

text \<open>
  C7. The default Voronoi seed counts of \<^verbatim>\<open>CONSTRAINTS\<close> are forest = 4, water = 3
  and grass = 6.
\<close>

theorem default_voronoiSeeds:
  "forest (voronoiSeeds CONSTRAINTS) = 4 \<and>
   water (voronoiSeeds CONSTRAINTS) = 3 \<and>
   grass (voronoiSeeds CONSTRAINTS) = 6"
  by (simp add: CONSTRAINTS_def)

section \<open>Properties of the tile table\<close>

lemma objectKeys_TILES:
  "objectKeys TILES = [''grass'', ''building'', ''road'', ''forest'', ''water'']"
  by (simp add: objectKeys_def TILES_def)

lemma tilesGet_own:
  "tilesGet ''grass'' = Entry (the (map_of TILES ''grass''))"
  "tilesGet ''building'' = Entry (the (map_of TILES ''building''))"
  "tilesGet ''road'' = Entry (the (map_of TILES ''road''))"
  "tilesGet ''forest'' = Entry (the (map_of TILES ''forest''))"
  "tilesGet ''water'' = Entry (the (map_of TILES ''water''))"
  by (simp_all add: tilesGet_def TILES_def)

lemma tilesGet_not_own:
  assumes "k \<notin> set (objectKeys TILES)"
  shows "tilesGet k = (if k \<in> set objectPrototypeKeys then Inherited k else Undefined)"
proof -
  from assms have "map_of TILES k = None"
    by (simp add: objectKeys_def map_of_eq_None_iff)
  then show ?thesis by (simp add: tilesGet_def)
qed

lemma range_tagName:
  "range tagName = {''grass'', ''building'', ''road'', ''forest'', ''water''}"
proof
  show "range tagName \<subseteq> {''grass'', ''building'', ''road'', ''forest'', ''water''}"
  proof
    fix s assume "s \<in> range tagName"
    then obtain t where "s = tagName t" by blast
    then show "s \<in> {''grass'', ''building'', ''road'', ''forest'', ''water''}"
      by (cases t) simp_all
  qed
next
  have "tagName Grass \<in> range tagName" "tagName Building \<in> range tagName"
    "tagName Road \<in> range tagName" "tagName Forest \<in> range tagName"
    "tagName Water \<in> range tagName"
    by blast+
  then show "{''grass'', ''building'', ''road'', ''forest'', ''water''} \<subseteq> range tagName"
    by simp
qed

lemma tilesGet_Entry_iff:
  "(\<exists>cfg. tilesGet k = Entry cfg) = (k \<in> set (objectKeys TILES))"
proof (cases "k \<in> set (objectKeys TILES)")
  case True
  then have "k = ''grass'' \<or> k = ''building'' \<or> k = ''road'' \<or> k = ''forest'' \<or> k = ''water''"
    by (simp add: objectKeys_TILES)
  then have "\<exists>cfg. tilesGet k = Entry cfg"
    using tilesGet_own by metis
  with True show ?thesis by simp
next
  case False
  then show ?thesis by (simp add: tilesGet_not_own)
qed

text \<open>
  C6. The tile tags are exactly grass, building, road, forest and water, distinct and
  without payload, and \<^verbatim>\<open>TILES\<close> has an entry for exactly these five: its keys are
  the five tag names, once each; every entry carries its own key as \<^verbatim>\<open>type\<close>, a
  color, a WASM number and a display name; a property read on \<^verbatim>\<open>TILES\<close> finds an
  entry for a tag name and for no other string; and \<^verbatim>\<open>getAllTileTypes\<close> returns
  the five tag-only values.
\<close>

theorem TILES_exactly_five_tags:
  "(UNIV :: TileTag set) = {Grass, Building, Road, Forest, Water} \<and>
   distinct (map tagName [Grass, Building, Road, Forest, Water]) \<and>
   objectKeys TILES = map tagName [Grass, Building, Road, Forest, Water] \<and>
   length TILES = 5 \<and>
   map (\<lambda>e. type (snd e)) TILES = objectKeys TILES \<and>
   map (\<lambda>e. wasmNumber (snd e)) TILES = [0, 1, 2, 3, 4] \<and>
   map (\<lambda>e. displayName (snd e)) TILES =
     [Some ''Grass'', Some ''Building'', Some ''Road'', Some ''Forest'', Some ''Water''] \<and>
   (\<forall>k. (\<exists>cfg. tilesGet k = Entry cfg) = (k \<in> range tagName)) \<and>
   getAllTileTypes = map (\<lambda>t. TileType (tagName t)) [Grass, Building, Road, Forest, Water]"
proof -
  have univ: "(UNIV :: TileTag set) = {Grass, Building, Road, Forest, Water}"
  proof
    show "(UNIV :: TileTag set) \<subseteq> {Grass, Building, Road, Forest, Water}"
    proof
      fix t :: TileTag
      show "t \<in> {Grass, Building, Road, Forest, Water}" by (cases t) simp_all
    qed
  qed simp
  have keys: "objectKeys TILES = map tagName [Grass, Building, Road, Forest, Water]"
    by (simp add: objectKeys_TILES)
  have dist: "distinct (map tagName [Grass, Building, Road, Forest, Water])"
    by simp
  have len: "length TILES = 5"
    by (simp add: TILES_def)
  have types: "map (\<lambda>e. type (snd e)) TILES = objectKeys TILES"
    by (simp add: TILES_def objectKeys_def)
  have nums: "map (\<lambda>e. wasmNumber (snd e)) TILES = [0, 1, 2, 3, 4]"
    by (simp add: TILES_def)
  have names: "map (\<lambda>e. displayName (snd e)) TILES =
     [Some ''Grass'', Some ''Building'', Some ''Road'', Some ''Forest'', Some ''Water'']"
    by (simp add: TILES_def)
  have entry: "\<forall>k. (\<exists>cfg. tilesGet k = Entry cfg) = (k \<in> range tagName)"
    by (simp only: tilesGet_Entry_iff range_tagName objectKeys_TILES) simp
  have all: "getAllTileTypes = map (\<lambda>t. TileType (tagName t)) [Grass, Building, Road, Forest, Water]"
    by (simp add: getAllTileTypes_def objectKeys_TILES)
  from univ dist keys len types nums names entry all show ?thesis
    by (intro conjI)
qed

lemma getTileWasmNumber_own:
  "map getTileWasmNumber [''grass'', ''building'', ''road'', ''forest'', ''water''] =
     [0, 1, 2, 3, 4]"
  by (simp add: getTileWasmNumber_def tilesGet_own) (simp add: TILES_def)

lemma getTileWasmNumber_not_own:
  assumes "s \<notin> set (objectKeys TILES)"
  shows "getTileWasmNumber s = - 1"
  using tilesGet_not_own [OF assms] by (simp add: getTileWasmNumber_def)

lemma getTileColor_not_found:
  assumes "s \<notin> set (objectKeys TILES)" and "s \<notin> set objectPrototypeKeys"
  shows "getTileColor (TileType s) = Inr (Color3 1 1 1)"
  using tilesGet_not_own [OF assms(1)] assms(2) by (simp add: getTileColor_def)

lemma getTileColor_inherited:
  assumes "s \<in> set objectPrototypeKeys"
  shows "getTileColor (TileType s) = Inl TypeError"
proof -
  from assms have "s \<notin> set (objectKeys TILES)"
    by (auto simp: objectPrototypeKeys_def objectKeys_TILES)
  from tilesGet_not_own [OF this] assms show ?thesis
    by (simp add: getTileColor_def)
qed

lemma getTileModelUrl_not_own:
  assumes "s \<notin> set (objectKeys TILES)"
  shows "getTileModelUrl s = DEFAULT_TILE_MODEL_URL"
  using tilesGet_not_own [OF assms] by (simp add: getTileModelUrl_def)

text \<open>
  The number mapping: grass, building, road, forest, water go to 0, 1, 2, 3, 4,
  injectively on the keys of \<^verbatim>\<open>TILES\<close>, and every string that is not a key goes
  to \<open>-1\<close>, a name inherited from \<^verbatim>\<open>Object.prototype\<close> included.
\<close>

lemma getTileWasmNumber_mapping:
  "map getTileWasmNumber [''grass'', ''building'', ''road'', ''forest'', ''water''] =
     [0, 1, 2, 3, 4] \<and>
   inj_on getTileWasmNumber (set (objectKeys TILES)) \<and>
   (\<forall>s. s \<notin> set (objectKeys TILES) \<longrightarrow> getTileWasmNumber s = - 1)"
proof -
  have own: "map getTileWasmNumber [''grass'', ''building'', ''road'', ''forest'', ''water''] =
     [0, 1, 2, 3, 4]"
    by (rule getTileWasmNumber_own)
  have "distinct (map getTileWasmNumber (objectKeys TILES))"
    by (simp only: objectKeys_TILES own) simp
  moreover have "distinct (objectKeys TILES)"
    by (simp add: objectKeys_TILES)
  ultimately have inj: "inj_on getTileWasmNumber (set (objectKeys TILES))"
    by (simp add: distinct_map)
  from own inj getTileWasmNumber_not_own show ?thesis
    by blast
qed

text \<open>
  C10. The source promises white for a tile type that is not found
  (\<^verbatim>\<open>// Fallback to white if tile type not found\<close>), and the code does not keep the
  promise at the tile type \<^verbatim>\<open>{ type: 'toString' }\<close>. \<^verbatim>\<open>toString\<close> is not a key
  of \<^verbatim>\<open>TILES\<close>, but the read \<^verbatim>\<open>TILES['toString']\<close> finds the function inherited
  from \<^verbatim>\<open>Object.prototype\<close>, the test \<^verbatim>\<open>if (tileConfig)\<close> passes, and
  \<^verbatim>\<open>tileConfig.color.r\<close> throws a TypeError: the result is not the white color.
  At the same input the sibling functions do fall back: \<^verbatim>\<open>getTileWasmNumber\<close>
  returns \<open>-1\<close> and \<^verbatim>\<open>getTileModelUrl\<close> the default URL.
\<close>

theorem getTileColor_toString_throws:
  "''toString'' \<notin> set (objectKeys TILES) \<and>
   getTileColor (TileType ''toString'') = Inl TypeError \<and>
   getTileColor (TileType ''toString'') \<noteq> Inr (Color3 1 1 1) \<and>
   getTileWasmNumber ''toString'' = - 1 \<and>
   getTileModelUrl ''toString'' = DEFAULT_TILE_MODEL_URL"
proof -
  have k: "''toString'' \<notin> set (objectKeys TILES)"
    by (simp add: objectKeys_TILES)
  have "''toString'' \<in> set objectPrototypeKeys"
    by (simp add: objectPrototypeKeys_def)
  from getTileColor_inherited [OF this] k
    getTileWasmNumber_not_own [OF k] getTileModelUrl_not_own [OF k]
  show ?thesis by simp
qed

section \<open>Properties of the building placer\<close>

lemma bestIndex_lt: "xs \<noteq> [] \<Longrightarrow> bestIndex f xs < length xs"
  by (induction f xs rule: bestIndex.induct) (auto simp: Let_def)

lemma indexWithin_lt: "indexWithin d a cs = Some i \<Longrightarrow> i < length cs"
  by (induction cs arbitrary: i) (auto split: if_splits)

lemma chooseIndex_lt:
  assumes "remaining \<noteq> []"
  shows "fst (chooseIndex mode rnd radius step anchor picked remaining) < length remaining"
proof -
  from assms have m: "rnd step mod length remaining < length remaining" by simp
  show ?thesis
  proof (cases mode)
    case Clustered
    with m show ?thesis
      by (auto simp: chooseIndex_def Let_def indexWithin_lt split: option.splits)
  next
    case Distributed
    with m assms show ?thesis
      by (simp add: chooseIndex_def Let_def bestIndex_lt)
  next
    case Random
    with m show ?thesis
      by (simp add: chooseIndex_def Let_def)
  qed
qed

text \<open>One step of the loop, with the index the policy chose known to be in range.\<close>

lemma selectCells_step:
  assumes "remaining \<noteq> []"
  obtains i anchor' where "i < length remaining"
    and "selectCells mode rnd radius (Suc k) step anchor picked remaining =
      selectCells mode rnd radius k (Suc step) anchor' (picked @ [remaining ! i])
        (take i remaining @ drop (Suc i) remaining)"
proof -
  obtain i anchor' where ch: "chooseIndex mode rnd radius step anchor picked remaining = (i, anchor')"
    by (cases "chooseIndex mode rnd radius step anchor picked remaining")
  with chooseIndex_lt [OF assms, of mode rnd radius step anchor picked]
  have lt: "i < length remaining" by simp
  have "selectCells mode rnd radius (Suc k) step anchor picked remaining =
      selectCells mode rnd radius k (Suc step) anchor' (picked @ [remaining ! i])
        (take i remaining @ drop (Suc i) remaining)"
    using assms ch by simp
  with lt show thesis by (rule that)
qed

lemma set_remove_nth: "i < length xs \<Longrightarrow> set (take i xs @ drop (Suc i) xs) \<subseteq> set xs"
  by (auto dest: in_set_takeD in_set_dropD)

lemma selectCells_subset:
  "set (selectCells mode rnd radius k step anchor picked remaining) \<subseteq> set picked \<union> set remaining"
proof (induction k arbitrary: step anchor picked remaining)
  case 0
  show ?case by simp
next
  case (Suc k)
  show ?case
  proof (cases "remaining = []")
    case True
    then show ?thesis by simp
  next
    case False
    then obtain i anchor' where lt: "i < length remaining"
      and sel: "selectCells mode rnd radius (Suc k) step anchor picked remaining =
        selectCells mode rnd radius k (Suc step) anchor' (picked @ [remaining ! i])
          (take i remaining @ drop (Suc i) remaining)"
      by (rule selectCells_step)
    have "set (selectCells mode rnd radius k (Suc step) anchor' (picked @ [remaining ! i])
        (take i remaining @ drop (Suc i) remaining))
      \<subseteq> set (picked @ [remaining ! i]) \<union> set (take i remaining @ drop (Suc i) remaining)"
      by (rule Suc.IH)
    also have "\<dots> \<subseteq> set picked \<union> set remaining"
      using lt set_remove_nth [OF lt] by auto
    finally show ?thesis by (simp only: sel)
  qed
qed

lemma selectCells_length:
  "length (selectCells mode rnd radius k step anchor picked remaining) =
     length picked + min k (length remaining)"
proof (induction k arbitrary: step anchor picked remaining)
  case 0
  show ?case by simp
next
  case (Suc k)
  show ?case
  proof (cases "remaining = []")
    case True
    then show ?thesis by simp
  next
    case False
    then obtain i anchor' where lt: "i < length remaining"
      and sel: "selectCells mode rnd radius (Suc k) step anchor picked remaining =
        selectCells mode rnd radius k (Suc step) anchor' (picked @ [remaining ! i])
          (take i remaining @ drop (Suc i) remaining)"
      by (rule selectCells_step)
    from lt have "length (take i remaining @ drop (Suc i) remaining) = length remaining - 1"
      by simp
    with Suc.IH [of "Suc step" anchor' "picked @ [remaining ! i]"
        "take i remaining @ drop (Suc i) remaining"] lt
    show ?thesis by (simp only: sel) simp
  qed
qed

lemma distinct_remove_nth:
  assumes "distinct (picked @ remaining)" and "i < length remaining"
  shows "distinct ((picked @ [remaining ! i]) @ (take i remaining @ drop (Suc i) remaining))"
proof -
  from assms(2) have split: "remaining = take i remaining @ (remaining ! i) # drop (Suc i) remaining"
    by (simp add: id_take_nth_drop)
  from assms(1) have "distinct (picked @ take i remaining @ (remaining ! i) # drop (Suc i) remaining)"
    using split by simp
  then show ?thesis by auto
qed

lemma selectCells_distinct:
  "distinct (picked @ remaining) \<Longrightarrow>
   distinct (selectCells mode rnd radius k step anchor picked remaining)"
proof (induction k arbitrary: step anchor picked remaining)
  case 0
  then show ?case by simp
next
  case (Suc k)
  show ?case
  proof (cases "remaining = []")
    case True
    with Suc.prems show ?thesis by simp
  next
    case False
    then obtain i anchor' where lt: "i < length remaining"
      and sel: "selectCells mode rnd radius (Suc k) step anchor picked remaining =
        selectCells mode rnd radius k (Suc step) anchor' (picked @ [remaining ! i])
          (take i remaining @ drop (Suc i) remaining)"
      by (rule selectCells_step)
    from Suc.IH [OF distinct_remove_nth [OF Suc.prems lt]] show ?thesis
      by (simp only: sel)
  qed
qed

lemma distinct_hexCells: "distinct (hexCells R)"
  by (simp add: hexCells_def distinct_product)

text \<open>The grid of the spec's example, radius 3, has \<open>1 + 3 \<times> 3 \<times> (3 + 1) = 37\<close> cells.\<close>

lemma hexCells_radius_3: "length (hexCells 3) = 37"
  by code_simp

lemma placed_eq:
  "placed (placeBuildings R inp rnd region roads) =
     selectCells (clustering inp) rnd (clusterRadius inp)
       (min (nat \<lfloor>density inp * real (length (hexCells R))\<rfloor>)
          (length (eligibleCells R inp region roads)))
       0 None [] (eligibleCells R inp region roads)"
  by (simp add: placeBuildings_def Let_def)

lemma requested_eq:
  "requested (placeBuildings R inp rnd region roads) =
     nat \<lfloor>density inp * real (length (hexCells R))\<rfloor>"
  by (simp add: placeBuildings_def Let_def)

lemma shortfall_eq:
  "shortfall (placeBuildings R inp rnd region roads) =
     requested (placeBuildings R inp rnd region roads) -
     length (placed (placeBuildings R inp rnd region roads))"
  by (simp add: placeBuildings_def Let_def)

lemma placed_subset:
  "set (placed (placeBuildings R inp rnd region roads)) \<subseteq> set (eligibleCells R inp region roads)"
  using selectCells_subset [of "clustering inp" rnd "clusterRadius inp" _ 0 None "[]"
      "eligibleCells R inp region roads"]
  by (simp add: placed_eq)

lemma placed_length:
  "length (placed (placeBuildings R inp rnd region roads)) =
     min (requested (placeBuildings R inp rnd region roads))
       (length (eligibleCells R inp region roads))"
  by (simp add: placed_eq requested_eq selectCells_length)

lemma placed_distinct: "distinct (placed (placeBuildings R inp rnd region roads))"
  by (simp add: placed_eq eligibleCells_def selectCells_distinct distinct_hexCells)

lemma assemble_Road: "(assemble region roads bs c = Road) = (c \<in> set roads)"
  by (cases "region c") (simp_all add: assemble_def)

lemma assemble_Building: "(assemble region roads bs c = Building) = (c \<notin> set roads \<and> c \<in> set bs)"
  by (cases "region c") (simp_all add: assemble_def)

lemma roadNeighbors_assemble:
  "roadNeighbors R (assemble region roads bs) c = roadNeighbors R (roadLayer region roads) c"
  by (simp add: roadNeighbors_def roadLayer_def assemble_Road)

lemma eligibleCells_iff:
  "(c \<in> set (eligibleCells R inp region roads)) =
     (c \<in> set (hexCells R) \<and> roadLayer region roads c = Grass \<and>
      minAdjacent inp \<le> roadNeighbors R (roadLayer region roads) c)"
  by (auto simp: eligibleCells_def eligible_def)

lemma building_cells:
  "{c \<in> set (hexCells R). layoutGrid R inp rnd region roads c = Building} =
     set (placed (placeBuildings R inp rnd region roads))"
proof -
  have "c \<in> set (hexCells R) \<and> c \<notin> set roads"
    if "c \<in> set (placed (placeBuildings R inp rnd region roads))" for c
  proof -
    from that placed_subset have "c \<in> set (eligibleCells R inp region roads)" by blast
    then have "c \<in> set (hexCells R)" and "roadLayer region roads c = Grass"
      by (simp_all add: eligibleCells_iff)
    then show ?thesis
      using assemble_Road [of region roads "[]" c] by (auto simp: roadLayer_def)
  qed
  then show ?thesis
    by (auto simp: layoutGrid_def assemble_Building)
qed

lemma buildingCount_layoutGrid:
  "buildingCount R (layoutGrid R inp rnd region roads) =
     length (placed (placeBuildings R inp rnd region roads))"
proof -
  have "buildingCount R (layoutGrid R inp rnd region roads) =
      card {c \<in> set (hexCells R). layoutGrid R inp rnd region roads c = Building}"
    using distinct_card [of "filter (\<lambda>c. layoutGrid R inp rnd region roads c = Building) (hexCells R)"]
    by (simp add: buildingCount_def distinct_hexCells)
  also have "\<dots> = card (set (placed (placeBuildings R inp rnd region roads)))"
    by (simp only: building_cells)
  also have "\<dots> = length (placed (placeBuildings R inp rnd region roads))"
    by (simp add: distinct_card placed_distinct)
  finally show ?thesis .
qed

lemma building_was_eligible:
  assumes "layoutGrid R inp rnd region roads c = Building"
  shows "c \<in> set (eligibleCells R inp region roads)"
proof -
  from assms have "c \<in> set (placed (placeBuildings R inp rnd region roads))"
    by (simp add: layoutGrid_def assemble_Building)
  with placed_subset show ?thesis by blast
qed

text \<open>
  C3. In the emitted grid every cell tagged building was grass in the layer the placer
  received and has at least \<open>minAdjacent\<close> road-tagged neighbours, before placement
  and in the output; the default minimum of \<^verbatim>\<open>CONSTRAINTS\<close> is 1. The placer always
  returns a placement: as many buildings as the density asks for when enough cells are
  eligible, and otherwise every eligible cell, fewer than requested, with the difference
  recorded as the shortfall.
\<close>

theorem buildings_on_grass_beside_roads:
  "minAdjacentRoads CONSTRAINTS = 1 \<and>
   (\<forall>c. layoutGrid R inp rnd region roads c = Building \<longrightarrow>
        roadLayer region roads c = Grass \<and>
        minAdjacent inp \<le> roadNeighbors R (roadLayer region roads) c \<and>
        minAdjacent inp \<le> roadNeighbors R (layoutGrid R inp rnd region roads) c) \<and>
   requested (placeBuildings R inp rnd region roads) =
     nat \<lfloor>density inp * real (length (hexCells R))\<rfloor> \<and>
   length (placed (placeBuildings R inp rnd region roads)) =
     min (requested (placeBuildings R inp rnd region roads))
       (length (eligibleCells R inp region roads)) \<and>
   shortfall (placeBuildings R inp rnd region roads) =
     requested (placeBuildings R inp rnd region roads) -
     length (placed (placeBuildings R inp rnd region roads)) \<and>
   (length (eligibleCells R inp region roads) < requested (placeBuildings R inp rnd region roads) \<longrightarrow>
      length (placed (placeBuildings R inp rnd region roads)) =
        length (eligibleCells R inp region roads) \<and>
      length (placed (placeBuildings R inp rnd region roads)) <
        requested (placeBuildings R inp rnd region roads) \<and>
      0 < shortfall (placeBuildings R inp rnd region roads))"
proof -
  have dflt: "minAdjacentRoads CONSTRAINTS = 1"
    by (simp add: CONSTRAINTS_def)
  have cells: "\<forall>c. layoutGrid R inp rnd region roads c = Building \<longrightarrow>
        roadLayer region roads c = Grass \<and>
        minAdjacent inp \<le> roadNeighbors R (roadLayer region roads) c \<and>
        minAdjacent inp \<le> roadNeighbors R (layoutGrid R inp rnd region roads) c"
  proof (intro allI impI)
    fix c assume "layoutGrid R inp rnd region roads c = Building"
    then have "c \<in> set (eligibleCells R inp region roads)"
      by (rule building_was_eligible)
    then have "roadLayer region roads c = Grass"
      and "minAdjacent inp \<le> roadNeighbors R (roadLayer region roads) c"
      by (simp_all add: eligibleCells_iff)
    moreover have "roadNeighbors R (layoutGrid R inp rnd region roads) c =
        roadNeighbors R (roadLayer region roads) c"
      by (simp add: layoutGrid_def roadNeighbors_assemble)
    ultimately show "roadLayer region roads c = Grass \<and>
        minAdjacent inp \<le> roadNeighbors R (roadLayer region roads) c \<and>
        minAdjacent inp \<le> roadNeighbors R (layoutGrid R inp rnd region roads) c"
      by simp
  qed
  have short: "length (eligibleCells R inp region roads) <
        requested (placeBuildings R inp rnd region roads) \<longrightarrow>
      length (placed (placeBuildings R inp rnd region roads)) =
        length (eligibleCells R inp region roads) \<and>
      length (placed (placeBuildings R inp rnd region roads)) <
        requested (placeBuildings R inp rnd region roads) \<and>
      0 < shortfall (placeBuildings R inp rnd region roads)"
    using placed_length [of R inp rnd region roads] shortfall_eq [of R inp rnd region roads]
    by auto
  from dflt cells requested_eq placed_length shortfall_eq short show ?thesis
    by (intro conjI)
qed

theorem buildings_on_grass_beside_roads_witness:
  "layoutGrid 3 (exampleInput 0.5) exampleRandom exampleRegion exampleRoads (0, 1) = Building \<and>
   roadLayer exampleRegion exampleRoads (0, 1) = Grass \<and>
   minAdjacent (exampleInput 0.5) = 1 \<and>
   1 \<le> roadNeighbors 3 (roadLayer exampleRegion exampleRoads) (0, 1) \<and>
   1 \<le> roadNeighbors 3
     (layoutGrid 3 (exampleInput 0.5) exampleRandom exampleRegion exampleRoads) (0, 1) \<and>
   length (eligibleCells 3 (exampleInput 0.5) exampleRegion exampleRoads) = 3 \<and>
   requested (placeBuildings 3 (exampleInput 0.5) exampleRandom exampleRegion exampleRoads) = 18 \<and>
   length (placed (placeBuildings 3 (exampleInput 0.5) exampleRandom exampleRegion exampleRoads)) = 3 \<and>
   shortfall (placeBuildings 3 (exampleInput 0.5) exampleRandom exampleRegion exampleRoads) = 15"
proof -
  have b: "layoutGrid 3 (exampleInput 0.5) exampleRandom exampleRegion exampleRoads (0, 1) = Building"
    by code_simp
  have m: "minAdjacent (exampleInput 0.5) = 1"
    by (simp add: exampleInput_def CONSTRAINTS_def)
  have e: "length (eligibleCells 3 (exampleInput 0.5) exampleRegion exampleRoads) = 3"
    by code_simp
  have q: "requested (placeBuildings 3 (exampleInput 0.5) exampleRandom exampleRegion exampleRoads) = 18"
    by code_simp
  from buildings_on_grass_beside_roads
    [where R = 3 and inp = "exampleInput 0.5" and rnd = exampleRandom
      and region = exampleRegion and roads = exampleRoads] b m e q
  show ?thesis by simp
qed

text \<open>
  C8. The density ratios of \<^verbatim>\<open>CONSTRAINTS\<close> are 0.05 for sparse, 0.10 for medium and
  0.15 for dense, and medium is the default level. For every radius, density level,
  clustering mode, random source, region layer and road set, the number of building
  cells of the emitted grid is at most the density ratio times the number of cells,
  rounded down, and at most the number of eligible cells.
\<close>

theorem building_count_within_density:
  "densityRatio DensitySparse = 0.05 \<and>
   densityRatio DensityMedium = 0.1 \<and>
   densityRatio DensityDense = 0.15 \<and>
   defaultBuildingDensity CONSTRAINTS = DensityMedium \<and>
   buildingCount R (layoutGrid R (inp\<lparr>density := densityRatio level\<rparr>) rnd region roads)
     \<le> min (nat \<lfloor>densityRatio level * real (length (hexCells R))\<rfloor>)
          (length (eligibleCells R (inp\<lparr>density := densityRatio level\<rparr>) region roads))"
proof -
  have ratios: "densityRatio DensitySparse = 0.05" "densityRatio DensityMedium = 0.1"
    "densityRatio DensityDense = 0.15" "defaultBuildingDensity CONSTRAINTS = DensityMedium"
    by (simp_all add: densityRatio_def CONSTRAINTS_def)
  have "buildingCount R (layoutGrid R (inp\<lparr>density := densityRatio level\<rparr>) rnd region roads) =
      min (nat \<lfloor>densityRatio level * real (length (hexCells R))\<rfloor>)
          (length (eligibleCells R (inp\<lparr>density := densityRatio level\<rparr>) region roads))"
    by (simp add: buildingCount_layoutGrid placed_length requested_eq)
  with ratios show ?thesis by simp
qed

theorem building_count_within_density_witness:
  "buildingCount 3
     (layoutGrid 3 (exampleInput (densityRatio DensityMedium)) exampleRandom exampleRegion exampleRoads)
   = 3 \<and>
   nat \<lfloor>densityRatio DensityMedium * real (length (hexCells 3))\<rfloor> = 3 \<and>
   length (eligibleCells 3 (exampleInput (densityRatio DensityMedium)) exampleRegion exampleRoads) = 3"
proof -
  have i: "(exampleInput 0)\<lparr>density := densityRatio DensityMedium\<rparr> =
      exampleInput (densityRatio DensityMedium)"
    by (simp add: exampleInput_def)
  have c: "buildingCount 3
     (layoutGrid 3 (exampleInput (densityRatio DensityMedium)) exampleRandom exampleRegion exampleRoads)
     = 3"
    by code_simp
  have f: "nat \<lfloor>densityRatio DensityMedium * real (length (hexCells 3))\<rfloor> = 3"
    by (simp add: densityRatio_def CONSTRAINTS_def hexCells_radius_3)
  have e: "length (eligibleCells 3 (exampleInput (densityRatio DensityMedium)) exampleRegion exampleRoads) = 3"
    by code_simp
  from building_count_within_density
    [where R = 3 and inp = "exampleInput 0" and level = DensityMedium and rnd = exampleRandom
      and region = exampleRegion and roads = exampleRoads] c f e
  show ?thesis by (simp add: i)
qed

end
